theory Spec2Isabelle
  imports Main "HOL-Library.Multiset"
begin

section \<open>Book Tracker API: the request handlers of main.py\<close>

text \<open>
  The four handlers of \<^verbatim>\<open>main.py\<close> (\<^verbatim>\<open>create_book\<close>, \<^verbatim>\<open>get_books\<close>,
  \<^verbatim>\<open>delete_book\<close>, \<^verbatim>\<open>update_book\<close>) are embedded as functions that take the
  store client, the request and the state of the external store, and return the
  response (or the exception raised) together with the store's new state.
  The authenticated user id \<open>current_user\<close> is the value that
  \<^verbatim>\<open>Depends(get_current_user)\<close> hands to each handler as \<^verbatim>\<open>user_id\<close>.
\<close>

subsection \<open>Request and response models\<close>

text \<open>
  \<^verbatim>\<open>BookCreate\<close>: the default \<^verbatim>\<open>status = "reading"\<close> is filled in by the request
  parser, so the handler always sees a status.
\<close>

record BookCreate =
  title :: string
  author :: string
  status :: string

record BookUpdate =
  title :: "string option"
  author :: "string option"
  status :: "string option"

text \<open>
  \<^verbatim>\<open>BookResponse\<close>, which is also the shape of a row of the \<^verbatim>\<open>books\<close> table.
  The timestamp \<^verbatim>\<open>created_at\<close> is kept as a number of ticks, so that the
  store can order by it.
\<close>

record BookResponse =
  id :: string
  title :: string
  author :: string
  status :: string
  created_at :: nat
  user_id :: string

subsection \<open>Exceptions\<close>

text \<open>
  \<^verbatim>\<open>HTTPException(status_code, detail)\<close> is a subclass of \<^verbatim>\<open>Exception\<close>;
  \<open>OtherException\<close> stands for every exception that is not an
  \<^verbatim>\<open>HTTPException\<close> (what the store client raises). A detail is either a
  literal message or \<^verbatim>\<open>str(e)\<close> of a caught exception, kept symbolic.
\<close>

datatype exc = HTTPException nat detail | OtherException string
  and detail = Text string | Str exc

text \<open>The status code classes: 4xx is a client error, 5xx a server error.\<close>

fun client_error :: "exc \<Rightarrow> bool" where
  "client_error (HTTPException c d) = (400 \<le> c \<and> c < 500)"
| "client_error (OtherException m) = False"

fun server_error :: "exc \<Rightarrow> bool" where
  "server_error (HTTPException c d) = (500 \<le> c \<and> c < 600)"
| "server_error (OtherException m) = False"

subsection \<open>The store client\<close>

text \<open>
  A query is what the chain \<^verbatim>\<open>supabase.table(..).select(..).eq(..).order(..)\<close>
  builds; nothing reaches the store before \<^verbatim>\<open>execute()\<close>.
\<close>

datatype verb =
    Insert "(string \<times> string) list"
  | Select string
  | Update "(string \<times> string) list"
  | Delete

record query =
  tbl :: string
  verb :: verb
  filters :: "(string \<times> string) list"
  ordering :: "(string \<times> bool) option"

definition table :: "string \<Rightarrow> string" where
  "table name = name"

definition insert_q :: "(string \<times> string) list \<Rightarrow> string \<Rightarrow> query" where
  "insert_q json t = \<lparr>tbl = t, verb = Insert json, filters = [], ordering = None\<rparr>"

definition select_q :: "string \<Rightarrow> string \<Rightarrow> query" where
  "select_q cols t = \<lparr>tbl = t, verb = Select cols, filters = [], ordering = None\<rparr>"

definition update_q :: "(string \<times> string) list \<Rightarrow> string \<Rightarrow> query" where
  "update_q json t = \<lparr>tbl = t, verb = Update json, filters = [], ordering = None\<rparr>"

definition delete_q :: "string \<Rightarrow> query" where
  "delete_q t = \<lparr>tbl = t, verb = Delete, filters = [], ordering = None\<rparr>"

definition eq_q :: "string \<Rightarrow> string \<Rightarrow> query \<Rightarrow> query" where
  "eq_q column v q = q\<lparr>filters := filters q @ [(column, v)]\<rparr>"

definition order_q :: "string \<Rightarrow> bool \<Rightarrow> query \<Rightarrow> query" where
  "order_q column desc q = q\<lparr>ordering := Some (column, desc)\<rparr>"

text \<open>
  The client's \<^verbatim>\<open>execute()\<close>: it runs a query against the store in state
  \<open>'s\<close> and either raises or returns \<^verbatim>\<open>result.data\<close>, leaving the store in
  a new state.
\<close>

type_synonym 's client = "query \<Rightarrow> 's \<Rightarrow> (exc + BookResponse list) \<times> 's"

subsection \<open>The handlers\<close>

definition valid_statuses :: "string list" where
  "valid_statuses = [''reading'', ''completed'', ''wishlist'']"

fun join :: "string \<Rightarrow> string list \<Rightarrow> string" where
  "join sep [] = []"
| "join sep [x] = x"
| "join sep (x # y # ys) = x @ sep @ join sep (y # ys)"

text \<open>\<^verbatim>\<open>except Exception as e: raise HTTPException(500, detail=str(e))\<close>\<close>

fun except_Exception :: "(exc + 'a) \<times> 's \<Rightarrow> (exc + 'a) \<times> 's" where
  "except_Exception (Inl e, s) = (Inl (HTTPException 500 (Str e)), s)"
| "except_Exception (Inr r, s) = (Inr r, s)"

text \<open>
  \<^verbatim>\<open>except HTTPException: raise\<close> followed by
  \<^verbatim>\<open>except Exception as e: raise HTTPException(500, detail=str(e))\<close>
\<close>

fun except_HTTPException_Exception :: "(exc + 'a) \<times> 's \<Rightarrow> (exc + 'a) \<times> 's" where
  "except_HTTPException_Exception (Inl (HTTPException c d), s) = (Inl (HTTPException c d), s)"
| "except_HTTPException_Exception (Inl (OtherException m), s) =
     (Inl (HTTPException 500 (Str (OtherException m))), s)"
| "except_HTTPException_Exception (Inr r, s) = (Inr r, s)"

text \<open>The body of the \<^verbatim>\<open>try\<close> block of \<^verbatim>\<open>create_book\<close>.\<close>

definition create_book_try ::
  "'s client \<Rightarrow> BookCreate \<Rightarrow> string \<Rightarrow> 's \<Rightarrow> (exc + BookResponse) \<times> 's" where
  "create_book_try supabase book current_user s =
     (case supabase (insert_q [(''title'', BookCreate.title book),
                               (''author'', BookCreate.author book),
                               (''status'', BookCreate.status book),
                               (''user_id'', current_user)] (table ''books'')) s of
        (Inl e, s1) \<Rightarrow> (Inl e, s1)
      | (Inr data, s1) \<Rightarrow>
          (case data of
             [] \<Rightarrow> (Inl (HTTPException 500 (Text ''Failed to create book'')), s1)
           | r # _ \<Rightarrow> (Inr r, s1)))"

definition create_book ::
  "'s client \<Rightarrow> BookCreate \<Rightarrow> string \<Rightarrow> 's \<Rightarrow> (exc + BookResponse) \<times> 's" where
  "create_book supabase book current_user s =
     (if BookCreate.status book \<notin> set valid_statuses
      then (Inl (HTTPException 400
                  (Text (''Status must be one of: '' @ join '', '' valid_statuses))), s)
      else except_Exception (create_book_try supabase book current_user s))"

text \<open>
  The body of the \<^verbatim>\<open>try\<close> block of \<^verbatim>\<open>get_books\<close>. \<^verbatim>\<open>if status_filter:\<close> holds
  for a filter that is present and not the empty string.
\<close>

definition get_books_try ::
  "'s client \<Rightarrow> string option \<Rightarrow> string \<Rightarrow> 's \<Rightarrow> (exc + BookResponse list) \<times> 's" where
  "get_books_try supabase status_filter current_user s =
     (let query = eq_q ''user_id'' current_user (select_q ''*'' (table ''books'')) in
      case status_filter of
        None \<Rightarrow> supabase (order_q ''created_at'' True query) s
      | Some f \<Rightarrow>
          if f = [] then supabase (order_q ''created_at'' True query) s
          else if f \<notin> set valid_statuses
          then (Inl (HTTPException 400
                  (Text (''Status filter must be one of: '' @ join '', '' valid_statuses))), s)
          else supabase (order_q ''created_at'' True (eq_q ''status'' f query)) s)"

definition get_books ::
  "'s client \<Rightarrow> string option \<Rightarrow> string \<Rightarrow> 's \<Rightarrow> (exc + BookResponse list) \<times> 's" where
  "get_books supabase status_filter current_user s =
     except_Exception (get_books_try supabase status_filter current_user s)"

text \<open>The owner-scoped lookup that \<^verbatim>\<open>delete_book\<close> and \<^verbatim>\<open>update_book\<close> start with.\<close>

definition existing_book_q :: "string \<Rightarrow> string \<Rightarrow> query" where
  "existing_book_q book_id current_user =
     eq_q ''user_id'' current_user (eq_q ''id'' book_id (select_q ''*'' (table ''books'')))"

definition delete_book_try ::
  "'s client \<Rightarrow> string \<Rightarrow> string \<Rightarrow> 's \<Rightarrow> (exc + (string \<times> string) list) \<times> 's" where
  "delete_book_try supabase book_id current_user s =
     (case supabase (existing_book_q book_id current_user) s of
        (Inl e, s1) \<Rightarrow> (Inl e, s1)
      | (Inr existing_book, s1) \<Rightarrow>
          if existing_book = []
          then (Inl (HTTPException 404 (Text ''Book not found'')), s1)
          else
            (case supabase (eq_q ''user_id'' current_user
                             (eq_q ''id'' book_id (delete_q (table ''books'')))) s1 of
               (Inl e, s2) \<Rightarrow> (Inl e, s2)
             | (Inr result, s2) \<Rightarrow>
                 (Inr [(''message'', ''Book deleted successfully'')], s2)))"

definition delete_book ::
  "'s client \<Rightarrow> string \<Rightarrow> string \<Rightarrow> 's \<Rightarrow> (exc + (string \<times> string) list) \<times> 's" where
  "delete_book supabase book_id current_user s =
     except_HTTPException_Exception (delete_book_try supabase book_id current_user s)"

text \<open>
  \<^verbatim>\<open>update_data\<close> is built key by key; an invalid status raises while it is
  being built.
\<close>

definition update_data_of :: "BookUpdate \<Rightarrow> exc + (string \<times> string) list" where
  "update_data_of book_update =
     (let update_data = [];
          update_data = (case BookUpdate.title book_update of
                           None \<Rightarrow> update_data
                         | Some t \<Rightarrow> update_data @ [(''title'', t)]);
          update_data = (case BookUpdate.author book_update of
                           None \<Rightarrow> update_data
                         | Some a \<Rightarrow> update_data @ [(''author'', a)])
      in case BookUpdate.status book_update of
           None \<Rightarrow> Inr update_data
         | Some st \<Rightarrow>
             if st \<notin> set valid_statuses
             then Inl (HTTPException 400
                    (Text (''Status must be one of: '' @ join '', '' valid_statuses)))
             else Inr (update_data @ [(''status'', st)]))"

definition update_book_try ::
  "'s client \<Rightarrow> string \<Rightarrow> BookUpdate \<Rightarrow> string \<Rightarrow> 's \<Rightarrow> (exc + BookResponse) \<times> 's" where
  "update_book_try supabase book_id book_update current_user s =
     (case supabase (existing_book_q book_id current_user) s of
        (Inl e, s1) \<Rightarrow> (Inl e, s1)
      | (Inr existing_book, s1) \<Rightarrow>
          if existing_book = []
          then (Inl (HTTPException 404 (Text ''Book not found'')), s1)
          else
            (case update_data_of book_update of
               Inl e \<Rightarrow> (Inl e, s1)
             | Inr update_data \<Rightarrow>
                 if update_data = []
                 then (Inl (HTTPException 400 (Text ''No fields to update'')), s1)
                 else
                   (case supabase (eq_q ''user_id'' current_user
                                    (eq_q ''id'' book_id
                                      (update_q update_data (table ''books'')))) s1 of
                      (Inl e, s2) \<Rightarrow> (Inl e, s2)
                    | (Inr result, s2) \<Rightarrow>
                        (case result of
                           [] \<Rightarrow> (Inl (HTTPException 500 (Text ''Failed to update book'')), s2)
                         | r # _ \<Rightarrow> (Inr r, s2)))))"

definition update_book ::
  "'s client \<Rightarrow> string \<Rightarrow> BookUpdate \<Rightarrow> string \<Rightarrow> 's \<Rightarrow> (exc + BookResponse) \<times> 's" where
  "update_book supabase book_id book_update current_user s =
     except_HTTPException_Exception (update_book_try supabase book_id book_update current_user s)"

subsection \<open>The external store\<close>

text \<open>
  Modelled from the spec: the external store behind the client is not part of the
  repository. Section 6.3 of the specification describes it as a tabular service with
  insert-row, select-rows with equality filters and an order, update-rows and
  delete-rows, which assigns ids and timestamps on insert and checks no constraint of
  its own. The model keeps the rows of the \<^verbatim>\<open>books\<close> table in a list, and
  records every query it executes in \<open>calls\<close>.
\<close>

record store =
  books :: "BookResponse list"
  next_id :: nat
  now :: nat
  calls :: "query list"

definition empty_store :: store where
  "empty_store = \<lparr>books = [], next_id = 0, now = 0, calls = []\<rparr>"

fun string_of_nat :: "nat \<Rightarrow> string" where
  "string_of_nat n =
     (if n < 10 then [''0123456789'' ! n]
      else string_of_nat (n div 10) @ [''0123456789'' ! (n mod 10)])"

declare string_of_nat.simps [simp del]

definition column :: "string \<Rightarrow> BookResponse \<Rightarrow> string option" where
  "column c b =
     (if c = ''id'' then Some (BookResponse.id b)
      else if c = ''title'' then Some (BookResponse.title b)
      else if c = ''author'' then Some (BookResponse.author b)
      else if c = ''status'' then Some (BookResponse.status b)
      else if c = ''user_id'' then Some (BookResponse.user_id b)
      else None)"

definition matches :: "(string \<times> string) list \<Rightarrow> BookResponse \<Rightarrow> bool" where
  "matches fs b = list_all (\<lambda>(c, v). column c b = Some v) fs"

definition set_column :: "string \<times> string \<Rightarrow> BookResponse \<Rightarrow> BookResponse" where
  "set_column cv b =
     (if fst cv = ''id'' then b\<lparr>BookResponse.id := snd cv\<rparr>
      else if fst cv = ''title'' then b\<lparr>BookResponse.title := snd cv\<rparr>
      else if fst cv = ''author'' then b\<lparr>BookResponse.author := snd cv\<rparr>
      else if fst cv = ''status'' then b\<lparr>BookResponse.status := snd cv\<rparr>
      else if fst cv = ''user_id'' then b\<lparr>BookResponse.user_id := snd cv\<rparr>
      else b)"

definition set_columns :: "(string \<times> string) list \<Rightarrow> BookResponse \<Rightarrow> BookResponse" where
  "set_columns json b = fold set_column json b"

definition value_of :: "(string \<times> string) list \<Rightarrow> string \<Rightarrow> string" where
  "value_of json c = (case map_of json c of None \<Rightarrow> [] | Some v \<Rightarrow> v)"

definition order_rows :: "(string \<times> bool) option \<Rightarrow> BookResponse list \<Rightarrow> BookResponse list" where
  "order_rows ord rows =
     (case ord of
        None \<Rightarrow> rows
      | Some (c, desc) \<Rightarrow>
          if c = ''created_at''
          then (if desc then rev (sort_key created_at rows) else sort_key created_at rows)
          else rows)"

definition in_memory :: "store client" where
  "in_memory q s =
     (let s1 = s\<lparr>calls := calls s @ [q]\<rparr> in
      if tbl q \<noteq> ''books'' then (Inl (OtherException ''relation does not exist''), s1)
      else
        case verb q of
          Insert json \<Rightarrow>
            (let r = \<lparr>id = string_of_nat (next_id s),
                      title = value_of json ''title'',
                      author = value_of json ''author'',
                      status = value_of json ''status'',
                      created_at = now s,
                      user_id = value_of json ''user_id''\<rparr>
             in (Inr [r], s1\<lparr>books := books s @ [r],
                             next_id := Suc (next_id s),
                             now := Suc (now s)\<rparr>))
        | Select cols \<Rightarrow>
            (Inr (order_rows (ordering q) (filter (matches (filters q)) (books s))), s1)
        | Update json \<Rightarrow>
            (Inr (map (set_columns json) (filter (matches (filters q)) (books s))),
             s1\<lparr>books := map (\<lambda>b. if matches (filters q) b then set_columns json b else b)
                              (books s)\<rparr>)
        | Delete \<Rightarrow>
            (Inr (filter (matches (filters q)) (books s)),
             s1\<lparr>books := filter (\<lambda>b. \<not> matches (filters q) b) (books s)\<rparr>))"

text \<open>
  Requests are served in parallel, and the lookup and the mutation of
  \<^verbatim>\<open>delete_book\<close> and \<^verbatim>\<open>update_book\<close> are two separate store calls. The
  store below is the in-memory store on which another request's query \<open>other\<close>
  is executed between the two: just before a mutation of the request at hand.
\<close>

definition with_concurrent :: "query \<Rightarrow> store client" where
  "with_concurrent other q s =
     (case verb q of
        Update json \<Rightarrow> in_memory q (snd (in_memory other s))
      | Delete \<Rightarrow> in_memory q (snd (in_memory other s))
      | _ \<Rightarrow> in_memory q s)"

subsection \<open>Sequences of requests\<close>

datatype request =
    CreateBook BookCreate
  | GetBooks "string option"
  | DeleteBook string
  | UpdateBook string BookUpdate

text \<open>The store after one request of an authenticated user, and after a list of them.\<close>

fun handle :: "string \<times> request \<Rightarrow> store \<Rightarrow> store" where
  "handle (u, CreateBook book) s = snd (create_book in_memory book u s)"
| "handle (u, GetBooks status_filter) s = snd (get_books in_memory status_filter u s)"
| "handle (u, DeleteBook book_id) s = snd (delete_book in_memory book_id u s)"
| "handle (u, UpdateBook book_id book_update) s =
     snd (update_book in_memory book_id book_update u s)"

definition run :: "(string \<times> request) list \<Rightarrow> store \<Rightarrow> store" where
  "run reqs s = fold handle reqs s"

text \<open>Example data.\<close>

definition dune :: BookResponse where
  "dune = \<lparr>id = ''0'', title = ''Dune'', author = ''Herbert'', status = ''reading'',
           created_at = 0, user_id = ''alice''\<rparr>"

definition emma :: BookResponse where
  "emma = \<lparr>id = ''1'', title = ''Emma'', author = ''Austen'', status = ''completed'',
           created_at = 1, user_id = ''alice''\<rparr>"

definition ulysses :: BookResponse where
  "ulysses = \<lparr>id = ''2'', title = ''Ulysses'', author = ''Joyce'', status = ''wishlist'',
              created_at = 2, user_id = ''bob''\<rparr>"

definition library :: store where
  "library = \<lparr>books = [dune, emma, ulysses], next_id = 3, now = 3, calls = []\<rparr>"

section \<open>Properties\<close>

subsection \<open>The handlers against any store client\<close>


lemma join_valid_statuses: "join '', '' valid_statuses = ''reading, completed, wishlist''"
  by (simp add: valid_statuses_def)

lemma existing_book_q_simps:
  "tbl (existing_book_q i u) = ''books''"
  "verb (existing_book_q i u) = Select ''*''"
  "filters (existing_book_q i u) = [(''id'', i), (''user_id'', u)]"
  "ordering (existing_book_q i u) = None"
  by (simp_all add: existing_book_q_def eq_q_def select_q_def table_def)

lemma matches_id_user:
  "matches [(''id'', i), (''user_id'', u)] b \<longleftrightarrow> BookResponse.id b = i \<and> BookResponse.user_id b = u"
  by (simp add: matches_def column_def)

lemma matches_user:
  "matches [(''user_id'', u)] b \<longleftrightarrow> BookResponse.user_id b = u"
  by (simp add: matches_def column_def)

lemma matches_user_status:
  "matches [(''user_id'', u), (''status'', f)] b \<longleftrightarrow>
     BookResponse.user_id b = u \<and> BookResponse.status b = f"
  by (simp add: matches_def column_def)

lemma in_memory_existing_book:
  "in_memory (existing_book_q i u) s =
     (Inr (filter (\<lambda>b. BookResponse.id b = i \<and> BookResponse.user_id b = u) (books s)),
      s\<lparr>calls := calls s @ [existing_book_q i u]\<rparr>)"
  by (simp add: in_memory_def existing_book_q_simps order_rows_def matches_id_user cong: filter_cong)

lemma get_books_empty_filter:
  "get_books supabase (Some []) u s = get_books supabase None u s"
  by (simp add: get_books_def get_books_try_def)

lemma get_books_invalid_filter:
  "f \<noteq> [] \<Longrightarrow> f \<notin> set valid_statuses \<Longrightarrow>
   get_books supabase (Some f) u s =
     (Inl (HTTPException 500 (Str (HTTPException 400
        (Text ''Status filter must be one of: reading, completed, wishlist'')))), s)"
  by (simp add: get_books_def get_books_try_def join_valid_statuses)

lemma create_book_invalid_status:
  "BookCreate.status book \<notin> set valid_statuses \<Longrightarrow>
   create_book supabase book u s =
     (Inl (HTTPException 400 (Text ''Status must be one of: reading, completed, wishlist'')), s)"
  by (simp add: create_book_def join_valid_statuses)

lemma update_book_not_found:
  "supabase (existing_book_q i u) s = (Inr [], s1) \<Longrightarrow>
   update_book supabase i bu u s = (Inl (HTTPException 404 (Text ''Book not found'')), s1)"
  by (simp add: update_book_def update_book_try_def)

lemma delete_book_not_found:
  "supabase (existing_book_q i u) s = (Inr [], s1) \<Longrightarrow>
   delete_book supabase i u s = (Inl (HTTPException 404 (Text ''Book not found'')), s1)"
  by (simp add: delete_book_def delete_book_try_def)

lemma update_book_invalid_status:
  "supabase (existing_book_q i u) s = (Inr ex, s1) \<Longrightarrow> ex \<noteq> [] \<Longrightarrow>
   BookUpdate.status bu = Some st \<Longrightarrow> st \<notin> set valid_statuses \<Longrightarrow>
   update_book supabase i bu u s =
     (Inl (HTTPException 400 (Text ''Status must be one of: reading, completed, wishlist'')), s1)"
  by (simp add: update_book_def update_book_try_def update_data_of_def join_valid_statuses
           split: option.splits)

lemma update_book_no_fields:
  "supabase (existing_book_q i u) s = (Inr ex, s1) \<Longrightarrow> ex \<noteq> [] \<Longrightarrow>
   BookUpdate.title bu = None \<Longrightarrow> BookUpdate.author bu = None \<Longrightarrow> BookUpdate.status bu = None \<Longrightarrow>
   update_book supabase i bu u s = (Inl (HTTPException 400 (Text ''No fields to update'')), s1)"
  by (simp add: update_book_def update_book_try_def update_data_of_def)

lemma update_data_of_nonempty:
  "update_data_of bu = Inr json \<Longrightarrow> json \<noteq> [] \<longleftrightarrow>
     \<not> (BookUpdate.title bu = None \<and> BookUpdate.author bu = None \<and> BookUpdate.status bu = None)"
  by (auto simp add: update_data_of_def Let_def split: option.splits if_splits)

lemma update_book_zero_rows:
  "supabase (existing_book_q i u) s = (Inr ex, s1) \<Longrightarrow> ex \<noteq> [] \<Longrightarrow>
   update_data_of bu = Inr json \<Longrightarrow> json \<noteq> [] \<Longrightarrow>
   supabase (eq_q ''user_id'' u (eq_q ''id'' i (update_q json (table ''books'')))) s1 = (Inr [], s2) \<Longrightarrow>
   update_book supabase i bu u s = (Inl (HTTPException 500 (Text ''Failed to update book'')), s2)"
  by (simp add: update_book_def update_book_try_def)

lemma delete_book_zero_rows:
  "supabase (existing_book_q i u) s = (Inr ex, s1) \<Longrightarrow> ex \<noteq> [] \<Longrightarrow>
   supabase (eq_q ''user_id'' u (eq_q ''id'' i (delete_q (table ''books'')))) s1 = (Inr result, s2) \<Longrightarrow>
   delete_book supabase i u s = (Inr [(''message'', ''Book deleted successfully'')], s2)"
  by (simp add: delete_book_def delete_book_try_def)

lemma set_columns_update_data:
  "update_data_of bu = Inr json \<Longrightarrow>
   set_columns json b =
     b\<lparr>BookResponse.title := (case BookUpdate.title bu of None \<Rightarrow> BookResponse.title b | Some t \<Rightarrow> t),
       BookResponse.author := (case BookUpdate.author bu of None \<Rightarrow> BookResponse.author b | Some a \<Rightarrow> a),
       BookResponse.status := (case BookUpdate.status bu of None \<Rightarrow> BookResponse.status b | Some st \<Rightarrow> st)\<rparr>"
  by (auto simp add: update_data_of_def set_columns_def set_column_def split: option.splits if_splits)

subsection \<open>The handlers against the in-memory store\<close>

lemma update_data_of_Inl:
  "update_data_of bu = Inl e \<Longrightarrow>
   e = HTTPException 400 (Text ''Status must be one of: reading, completed, wishlist'')"
  by (auto simp add: update_data_of_def Let_def join_valid_statuses split: option.splits if_splits)

lemma update_data_of_Inl_iff:
  "(\<exists>e. update_data_of bu = Inl e) \<longleftrightarrow>
   (\<exists>st. BookUpdate.status bu = Some st \<and> st \<notin> set valid_statuses)"
  by (auto simp add: update_data_of_def Let_def split: option.splits if_splits)

lemma in_memory_update:
  "in_memory (eq_q ''user_id'' u (eq_q ''id'' i (update_q json (table ''books'')))) s =
     (Inr (map (set_columns json)
            (filter (\<lambda>b. BookResponse.id b = i \<and> BookResponse.user_id b = u) (books s))),
      s\<lparr>calls := calls s @ [eq_q ''user_id'' u (eq_q ''id'' i (update_q json (table ''books'')))],
        books := map (\<lambda>b. if BookResponse.id b = i \<and> BookResponse.user_id b = u
                           then set_columns json b else b) (books s)\<rparr>)"
  by (simp add: in_memory_def eq_q_def update_q_def table_def matches_id_user cong: filter_cong)

lemma in_memory_delete:
  "in_memory (eq_q ''user_id'' u (eq_q ''id'' i (delete_q (table ''books'')))) s =
     (Inr (filter (\<lambda>b. BookResponse.id b = i \<and> BookResponse.user_id b = u) (books s)),
      s\<lparr>calls := calls s @ [eq_q ''user_id'' u (eq_q ''id'' i (delete_q (table ''books'')))],
        books := filter (\<lambda>b. \<not> (BookResponse.id b = i \<and> BookResponse.user_id b = u)) (books s)\<rparr>)"
  by (simp add: in_memory_def eq_q_def delete_q_def table_def matches_id_user cong: filter_cong)

lemma in_memory_insert:
  "in_memory (insert_q [(''title'', t), (''author'', a), (''status'', st), (''user_id'', u)]
               (table ''books'')) s =
     (Inr [\<lparr>id = string_of_nat (next_id s), title = t, author = a, status = st,
             created_at = now s, user_id = u\<rparr>],
      s\<lparr>calls := calls s @ [insert_q [(''title'', t), (''author'', a), (''status'', st),
                                       (''user_id'', u)] (table ''books'')],
        books := books s @ [\<lparr>id = string_of_nat (next_id s), title = t, author = a,
                              status = st, created_at = now s, user_id = u\<rparr>],
        next_id := Suc (next_id s), now := Suc (now s)\<rparr>)"
  by (simp add: in_memory_def insert_q_def table_def value_of_def Let_def)

lemma in_memory_list_all:
  "in_memory (order_q ''created_at'' True (eq_q ''user_id'' u (select_q ''*'' (table ''books'')))) s =
     (Inr (rev (sort_key created_at (filter (\<lambda>b. BookResponse.user_id b = u) (books s)))),
      s\<lparr>calls := calls s @ [order_q ''created_at'' True
                               (eq_q ''user_id'' u (select_q ''*'' (table ''books'')))]\<rparr>)"
  by (simp add: in_memory_def order_q_def eq_q_def select_q_def table_def order_rows_def
        matches_user cong: filter_cong)

lemma in_memory_list_status:
  "in_memory (order_q ''created_at'' True
               (eq_q ''status'' f (eq_q ''user_id'' u (select_q ''*'' (table ''books''))))) s =
     (Inr (rev (sort_key created_at
            (filter (\<lambda>b. BookResponse.user_id b = u \<and> BookResponse.status b = f) (books s)))),
      s\<lparr>calls := calls s @ [order_q ''created_at'' True
                (eq_q ''status'' f (eq_q ''user_id'' u (select_q ''*'' (table ''books''))))]\<rparr>)"
  by (simp add: in_memory_def order_q_def eq_q_def select_q_def table_def order_rows_def
        matches_user_status cong: filter_cong)

lemma update_book_in_memory:
  "update_book in_memory i bu u s =
     (let existing = filter (\<lambda>b. BookResponse.id b = i \<and> BookResponse.user_id b = u) (books s);
          s1 = s\<lparr>calls := calls s @ [existing_book_q i u]\<rparr>
      in if existing = [] then (Inl (HTTPException 404 (Text ''Book not found'')), s1)
         else case update_data_of bu of
                Inl e \<Rightarrow> (Inl e, s1)
              | Inr json \<Rightarrow>
                  if json = [] then (Inl (HTTPException 400 (Text ''No fields to update'')), s1)
                  else (Inr (set_columns json (hd existing)),
                        s1\<lparr>calls := calls s1 @
                              [eq_q ''user_id'' u (eq_q ''id'' i (update_q json (table ''books'')))],
                           books := map (\<lambda>b. if BookResponse.id b = i \<and> BookResponse.user_id b = u
                                              then set_columns json b else b) (books s)\<rparr>))"
proof (cases "update_data_of bu")
  case (Inl e)
  then show ?thesis
    using update_data_of_Inl [OF Inl]
    by (simp add: update_book_def update_book_try_def in_memory_existing_book Let_def)
next
  case (Inr json)
  then show ?thesis
    by (cases "filter (\<lambda>b. BookResponse.id b = i \<and> BookResponse.user_id b = u) (books s)")
       (simp_all add: update_book_def update_book_try_def in_memory_existing_book
          in_memory_update Let_def)
qed

lemma delete_book_in_memory:
  "delete_book in_memory i u s =
     (let existing = filter (\<lambda>b. BookResponse.id b = i \<and> BookResponse.user_id b = u) (books s);
          s1 = s\<lparr>calls := calls s @ [existing_book_q i u]\<rparr>
      in if existing = [] then (Inl (HTTPException 404 (Text ''Book not found'')), s1)
         else (Inr [(''message'', ''Book deleted successfully'')],
               s1\<lparr>calls := calls s1 @
                     [eq_q ''user_id'' u (eq_q ''id'' i (delete_q (table ''books'')))],
                  books := filter (\<lambda>b. \<not> (BookResponse.id b = i \<and> BookResponse.user_id b = u))
                             (books s)\<rparr>))"
  by (simp add: delete_book_def delete_book_try_def in_memory_existing_book in_memory_delete
        Let_def)

lemma create_book_in_memory:
  "BookCreate.status book \<in> set valid_statuses \<Longrightarrow>
   create_book in_memory book u s =
     (Inr \<lparr>id = string_of_nat (next_id s), title = BookCreate.title book,
           author = BookCreate.author book, status = BookCreate.status book,
           created_at = now s, user_id = u\<rparr>,
      s\<lparr>calls := calls s @ [insert_q [(''title'', BookCreate.title book),
                                       (''author'', BookCreate.author book),
                                       (''status'', BookCreate.status book),
                                       (''user_id'', u)] (table ''books'')],
        books := books s @ [\<lparr>id = string_of_nat (next_id s), title = BookCreate.title book,
                              author = BookCreate.author book, status = BookCreate.status book,
                              created_at = now s, user_id = u\<rparr>],
        next_id := Suc (next_id s), now := Suc (now s)\<rparr>)"
  by (simp add: create_book_def create_book_try_def in_memory_insert)

lemma get_books_in_memory_all:
  "status_filter = None \<or> status_filter = Some [] \<Longrightarrow>
   get_books in_memory status_filter u s =
     (Inr (rev (sort_key created_at (filter (\<lambda>b. BookResponse.user_id b = u) (books s)))),
      s\<lparr>calls := calls s @ [order_q ''created_at'' True
                               (eq_q ''user_id'' u (select_q ''*'' (table ''books'')))]\<rparr>)"
  by (auto simp add: get_books_def get_books_try_def in_memory_list_all)

lemma get_books_in_memory_status:
  "f \<in> set valid_statuses \<Longrightarrow>
   get_books in_memory (Some f) u s =
     (Inr (rev (sort_key created_at
            (filter (\<lambda>b. BookResponse.user_id b = u \<and> BookResponse.status b = f) (books s)))),
      s\<lparr>calls := calls s @ [order_q ''created_at'' True
                (eq_q ''status'' f (eq_q ''user_id'' u (select_q ''*'' (table ''books''))))]\<rparr>)"
  by (auto simp add: get_books_def get_books_try_def in_memory_list_status valid_statuses_def)

lemma get_books_in_memory_books:
  "books (snd (get_books in_memory status_filter u s)) = books s"
proof (cases status_filter)
  case None
  then show ?thesis by (simp add: get_books_in_memory_all)
next
  case (Some f)
  show ?thesis
  proof (cases "f = []")
    case True
    with Some show ?thesis by (simp add: get_books_in_memory_all)
  next
    case False
    show ?thesis
    proof (cases "f \<in> set valid_statuses")
      case True
      with Some show ?thesis by (simp add: get_books_in_memory_status)
    next
      case False
      with \<open>f \<noteq> []\<close> Some show ?thesis by (simp add: get_books_invalid_filter)
    qed
  qed
qed

lemma sorted_desc_rev_sort_key:
  "sorted_wrt (\<lambda>a b. created_at b \<le> created_at a) (rev (sort_key created_at rows))"
proof -
  have "sorted (map created_at (sort_key created_at rows))"
    by (rule sorted_sort_key)
  then have "sorted_wrt (\<lambda>a b. created_at a \<le> created_at b) (sort_key created_at rows)"
    by (simp add: sorted_map)
  then show ?thesis
    by (simp add: sorted_wrt_rev)
qed

lemma filter_owned_empty:
  "(\<And>b. b \<in> set rows \<Longrightarrow> \<not> (BookResponse.id b = i \<and> BookResponse.user_id b = u)) \<Longrightarrow>
   filter (\<lambda>b. BookResponse.id b = i \<and> BookResponse.user_id b = u) rows = []"
  by (simp add: filter_empty_conv)

lemma update_book_in_memory_success:
  assumes "update_book in_memory i bu u s = (Inr r, s')"
  obtains json where "update_data_of bu = Inr json" and "json \<noteq> []"
    and "filter (\<lambda>b. BookResponse.id b = i \<and> BookResponse.user_id b = u) (books s) \<noteq> []"
    and "r = set_columns json
               (hd (filter (\<lambda>b. BookResponse.id b = i \<and> BookResponse.user_id b = u) (books s)))"
    and "books s' = map (\<lambda>b. if BookResponse.id b = i \<and> BookResponse.user_id b = u
                               then set_columns json b else b) (books s)"
  using assms
  by (auto simp add: update_book_in_memory Let_def split: if_splits sum.splits)

subsection \<open>Sequences of requests keep every persisted status valid\<close>

lemma update_data_of_status_valid:
  "update_data_of bu = Inr json \<Longrightarrow> BookUpdate.status bu = Some st \<Longrightarrow>
   st \<in> set valid_statuses"
  by (auto simp add: update_data_of_def Let_def split: option.splits if_splits)

lemma status_set_columns_valid:
  assumes "update_data_of bu = Inr json"
    and "BookResponse.status b \<in> set valid_statuses"
  shows "BookResponse.status (set_columns json b) \<in> set valid_statuses"
proof (cases "BookUpdate.status bu")
  case None
  with assms show ?thesis
    by (simp add: set_columns_update_data [OF assms(1)])
next
  case (Some st)
  with update_data_of_status_valid [OF assms(1) Some] show ?thesis
    by (simp add: set_columns_update_data [OF assms(1)])
qed

lemma create_book_valid_status:
  assumes "\<forall>b\<in>set (books s). BookResponse.status b \<in> set valid_statuses"
  shows "\<forall>b\<in>set (books (snd (create_book in_memory book u s))).
           BookResponse.status b \<in> set valid_statuses"
proof (cases "BookCreate.status book \<in> set valid_statuses")
  case True
  with assms show ?thesis by (simp add: create_book_in_memory)
next
  case False
  with assms show ?thesis by (simp add: create_book_invalid_status)
qed

lemma delete_book_valid_status:
  assumes "\<forall>b\<in>set (books s). BookResponse.status b \<in> set valid_statuses"
  shows "\<forall>b\<in>set (books (snd (delete_book in_memory i u s))).
           BookResponse.status b \<in> set valid_statuses"
  using assms by (simp add: delete_book_in_memory Let_def)

lemma update_book_valid_status:
  assumes "\<forall>b\<in>set (books s). BookResponse.status b \<in> set valid_statuses"
  shows "\<forall>b\<in>set (books (snd (update_book in_memory i bu u s))).
           BookResponse.status b \<in> set valid_statuses"
proof (cases "update_data_of bu")
  case (Inl e)
  with assms show ?thesis by (simp add: update_book_in_memory Let_def)
next
  case (Inr json)
  have "\<forall>b\<in>set (books s). BookResponse.status (set_columns json b) \<in> set valid_statuses"
    using assms status_set_columns_valid [OF Inr] by blast
  with assms Inr show ?thesis
    by (auto simp add: update_book_in_memory Let_def)
qed

lemma handle_valid_status:
  assumes "\<forall>b\<in>set (books s). BookResponse.status b \<in> set valid_statuses"
  shows "\<forall>b\<in>set (books (handle req s)). BookResponse.status b \<in> set valid_statuses"
proof (cases req)
  case (Pair u op)
  show ?thesis
  proof (cases op)
    case (CreateBook book)
    with Pair create_book_valid_status [OF assms] show ?thesis by simp
  next
    case (GetBooks status_filter)
    with Pair assms show ?thesis by (simp add: get_books_in_memory_books)
  next
    case (DeleteBook i)
    with Pair delete_book_valid_status [OF assms] show ?thesis by simp
  next
    case (UpdateBook i bu)
    with Pair update_book_valid_status [OF assms] show ?thesis by simp
  qed
qed

lemma run_valid_status:
  "\<forall>b\<in>set (books s). BookResponse.status b \<in> set valid_statuses \<Longrightarrow>
   \<forall>b\<in>set (books (run reqs s)). BookResponse.status b \<in> set valid_statuses"
proof (induction reqs arbitrary: s)
  case Nil
  then show ?case by (simp add: run_def)
next
  case (Cons req reqs)
  from Cons.IH [OF handle_valid_status [OF Cons.prems]]
  show ?case by (simp add: run_def)
qed

section \<open>Claims\<close>

text \<open>
  C1. Let user A own a book with id \<open>i\<close> in store \<open>s1\<close>, let \<open>i\<close> exist under no
  user in store \<open>s2\<close>, and let B be another user. B's update and delete requests for
  \<open>i\<close> return the same error, 404 "Book not found", in both stores, and in both the
  only store call made is the owner-scoped lookup: the rows are left as they were.
\<close>

theorem cross_owner_not_found:
  assumes "A \<noteq> B"
    and "\<exists>b\<in>set (books s1). BookResponse.id b = i"
    and "\<forall>b\<in>set (books s1). BookResponse.id b = i \<longrightarrow> BookResponse.user_id b = A"
    and "\<forall>b\<in>set (books s2). BookResponse.id b \<noteq> i"
  shows "fst (update_book in_memory i bu B s1) = Inl (HTTPException 404 (Text ''Book not found''))
       \<and> fst (update_book in_memory i bu B s2) = Inl (HTTPException 404 (Text ''Book not found''))
       \<and> fst (delete_book in_memory i B s1) = Inl (HTTPException 404 (Text ''Book not found''))
       \<and> fst (delete_book in_memory i B s2) = Inl (HTTPException 404 (Text ''Book not found''))
       \<and> snd (update_book in_memory i bu B s1) = s1\<lparr>calls := calls s1 @ [existing_book_q i B]\<rparr>
       \<and> snd (update_book in_memory i bu B s2) = s2\<lparr>calls := calls s2 @ [existing_book_q i B]\<rparr>
       \<and> snd (delete_book in_memory i B s1) = s1\<lparr>calls := calls s1 @ [existing_book_q i B]\<rparr>
       \<and> snd (delete_book in_memory i B s2) = s2\<lparr>calls := calls s2 @ [existing_book_q i B]\<rparr>"
proof -
  have e1: "filter (\<lambda>b. BookResponse.id b = i \<and> BookResponse.user_id b = B) (books s1) = []"
    using assms(1,3) by (intro filter_owned_empty) auto
  have e2: "filter (\<lambda>b. BookResponse.id b = i \<and> BookResponse.user_id b = B) (books s2) = []"
    using assms(4) by (intro filter_owned_empty) auto
  show ?thesis
    by (simp add: update_book_in_memory delete_book_in_memory e1 e2)
qed

theorem cross_owner_not_found_witness:
  "''alice'' \<noteq> ''bob''
   \<and> (\<exists>b\<in>set (books library). BookResponse.id b = ''0'')
   \<and> list_all (\<lambda>b. BookResponse.id b = ''0'' \<longrightarrow> BookResponse.user_id b = ''alice'') (books library)
   \<and> list_all (\<lambda>b. BookResponse.id b \<noteq> ''0'') (books (library\<lparr>books := [emma, ulysses]\<rparr>))
   \<and> fst (update_book in_memory ''0''
             \<lparr>BookUpdate.title = Some ''Mine'', author = None, status = None\<rparr> ''bob'' library)
       = Inl (HTTPException 404 (Text ''Book not found''))
   \<and> fst (update_book in_memory ''0''
             \<lparr>BookUpdate.title = Some ''Mine'', author = None, status = None\<rparr> ''bob''
             (library\<lparr>books := [emma, ulysses]\<rparr>))
       = Inl (HTTPException 404 (Text ''Book not found''))
   \<and> fst (delete_book in_memory ''0'' ''bob'' library)
       = Inl (HTTPException 404 (Text ''Book not found''))
   \<and> fst (delete_book in_memory ''0'' ''bob'' (library\<lparr>books := [emma, ulysses]\<rparr>))
       = Inl (HTTPException 404 (Text ''Book not found''))
   \<and> books (snd (update_book in_memory ''0''
             \<lparr>BookUpdate.title = Some ''Mine'', author = None, status = None\<rparr> ''bob'' library))
       = [dune, emma, ulysses]
   \<and> books (snd (delete_book in_memory ''0'' ''bob'' library)) = [dune, emma, ulysses]"
proof -
  have h1: "''alice'' \<noteq> ''bob''" by simp
  have h2: "\<exists>b\<in>set (books library). BookResponse.id b = ''0''"
    by (simp add: library_def dune_def)
  have h3: "\<forall>b\<in>set (books library). BookResponse.id b = ''0'' \<longrightarrow> BookResponse.user_id b = ''alice''"
    by (simp add: library_def dune_def emma_def ulysses_def)
  have h4: "\<forall>b\<in>set (books (library\<lparr>books := [emma, ulysses]\<rparr>)). BookResponse.id b \<noteq> ''0''"
    by (simp add: emma_def ulysses_def)
  have lib: "books library = [dune, emma, ulysses]"
    by (simp add: library_def)
  from cross_owner_not_found [OF h1 h2 h3 h4,
      of "\<lparr>BookUpdate.title = Some ''Mine'', author = None, status = None\<rparr>"]
  show ?thesis
    using h1 h2 h3 h4 lib by (simp add: list_all_iff)
qed

text \<open>
  C2. A list request whose status filter is not empty and not one of the three values
  raises the 400 "Status filter must be one of ..." inside the \<^verbatim>\<open>try\<close> block of
  \<^verbatim>\<open>get_books\<close>, whose only handler is \<^verbatim>\<open>except Exception\<close>: the caller
  receives a 500 whose detail is the text of the 400. Evaluated for the filter
  \<^verbatim>\<open>finished\<close>: the response is a server error, not a client error.
\<close>

theorem get_books_invalid_filter_server_error:
  "get_books in_memory (Some ''finished'') ''alice'' library =
     (Inl (HTTPException 500 (Str (HTTPException 400
        (Text ''Status filter must be one of: reading, completed, wishlist'')))), library)
   \<and> server_error (HTTPException 500 (Str (HTTPException 400
        (Text ''Status filter must be one of: reading, completed, wishlist''))))
   \<and> \<not> client_error (HTTPException 500 (Str (HTTPException 400
        (Text ''Status filter must be one of: reading, completed, wishlist''))))"
  by (simp add: get_books_invalid_filter valid_statuses_def)

text \<open>
  C3, as amended. \<^verbatim>\<open>create_book\<close> rejects a request, with a 400 and nothing
  persisted, exactly when its status is not one of the three values. Title and author
  are text of any length: with a valid status the request is accepted and the record
  is persisted with the title and author as given, empty or not.
\<close>

theorem create_book_rejects_status_only:
  "fst (create_book in_memory book u s) =
     (if BookCreate.status book \<in> set valid_statuses
      then Inr \<lparr>id = string_of_nat (next_id s), title = BookCreate.title book,
                author = BookCreate.author book, status = BookCreate.status book,
                created_at = now s, user_id = u\<rparr>
      else Inl (HTTPException 400
             (Text ''Status must be one of: reading, completed, wishlist'')))
   \<and> books (snd (create_book in_memory book u s)) =
     (if BookCreate.status book \<in> set valid_statuses
      then books s @ [\<lparr>id = string_of_nat (next_id s), title = BookCreate.title book,
                        author = BookCreate.author book, status = BookCreate.status book,
                        created_at = now s, user_id = u\<rparr>]
      else books s)"
  by (simp add: create_book_in_memory create_book_invalid_status)

text \<open>
  The amended claim at a request whose title and author are both empty.
\<close>

theorem create_book_rejects_status_only_witness:
  "fst (create_book in_memory
          \<lparr>BookCreate.title = [], author = [], status = ''wishlist''\<rparr> ''bob'' library)
     = Inr \<lparr>id = ''3'', title = [], author = [], status = ''wishlist'',
            created_at = 3, user_id = ''bob''\<rparr>
   \<and> books (snd (create_book in_memory
          \<lparr>BookCreate.title = [], author = [], status = ''wishlist''\<rparr> ''bob'' library))
     = [dune, emma, ulysses,
        \<lparr>id = ''3'', title = [], author = [], status = ''wishlist'',
          created_at = 3, user_id = ''bob''\<rparr>]"
  using create_book_rejects_status_only
    [of "\<lparr>BookCreate.title = [], author = [], status = ''wishlist''\<rparr>" "''bob''" library]
  by (simp add: valid_statuses_def library_def string_of_nat.simps)

text \<open>
  C3 as stated fails: a create request with an empty title is answered with the
  created record, and the record is in the store.
\<close>

theorem create_book_empty_title_counterexample:
  "fst (create_book in_memory
          \<lparr>BookCreate.title = [], author = ''Herbert'', status = ''reading''\<rparr>
          ''alice'' empty_store)
     = Inr \<lparr>id = ''0'', title = [], author = ''Herbert'', status = ''reading'',
            created_at = 0, user_id = ''alice''\<rparr>
   \<and> books (snd (create_book in_memory
          \<lparr>BookCreate.title = [], author = ''Herbert'', status = ''reading''\<rparr>
          ''alice'' empty_store))
     = [\<lparr>id = ''0'', title = [], author = ''Herbert'', status = ''reading'',
          created_at = 0, user_id = ''alice''\<rparr>]"
  by (simp add: create_book_in_memory valid_statuses_def empty_store_def string_of_nat.simps)

text \<open>
  C4, as amended. Validation errors are raised before any store mutation. In
  \<^verbatim>\<open>create_book\<close> and \<^verbatim>\<open>get_books\<close> an invalid status is rejected before any
  store call, whatever the client: the store is returned as it was. In
  \<^verbatim>\<open>update_book\<close> the owner-scoped lookup is executed first; an invalid status or
  an empty payload then ends the request with an error, the lookup being the only store
  call made.
\<close>

theorem validation_before_mutation:
  assumes "BookCreate.status book \<notin> set valid_statuses"
    and "f \<noteq> []" and "f \<notin> set valid_statuses"
    and "(\<exists>st. BookUpdate.status bu = Some st \<and> st \<notin> set valid_statuses)
         \<or> (BookUpdate.title bu = None \<and> BookUpdate.author bu = None
             \<and> BookUpdate.status bu = None)"
  shows "(\<exists>e. create_book supabase book u s = (Inl e, s))
       \<and> (\<exists>e. get_books supabase (Some f) u s = (Inl e, s))
       \<and> (\<exists>e. update_book in_memory i bu u s =
                 (Inl e, s\<lparr>calls := calls s @ [existing_book_q i u]\<rparr>))"
proof -
  have c: "\<exists>e. create_book supabase book u s = (Inl e, s)"
    using assms(1) by (simp add: create_book_invalid_status)
  have g: "\<exists>e. get_books supabase (Some f) u s = (Inl e, s)"
    using assms(2,3) by (simp add: get_books_invalid_filter)
  have "(\<exists>e. update_data_of bu = Inl e) \<or> update_data_of bu = Inr []"
    using assms(4)
  proof
    assume "\<exists>st. BookUpdate.status bu = Some st \<and> st \<notin> set valid_statuses"
    then show ?thesis by (simp add: update_data_of_Inl_iff)
  next
    assume "BookUpdate.title bu = None \<and> BookUpdate.author bu = None
             \<and> BookUpdate.status bu = None"
    then show ?thesis by (simp add: update_data_of_def)
  qed
  then have "\<exists>e. update_book in_memory i bu u s =
                 (Inl e, s\<lparr>calls := calls s @ [existing_book_q i u]\<rparr>)"
    by (auto simp add: update_book_in_memory Let_def)
  with c g show ?thesis by simp
qed

text \<open>
  The amended claim at the status \<^verbatim>\<open>finished\<close>.
\<close>

theorem validation_before_mutation_witness:
  "''finished'' \<notin> set valid_statuses \<and> ''finished'' \<noteq> []
   \<and> isl (fst (create_book in_memory
        \<lparr>BookCreate.title = ''Dune'', author = ''Herbert'', status = ''finished''\<rparr>
        ''alice'' library))
   \<and> snd (create_book in_memory
        \<lparr>BookCreate.title = ''Dune'', author = ''Herbert'', status = ''finished''\<rparr>
        ''alice'' library) = library
   \<and> isl (fst (get_books in_memory (Some ''finished'') ''alice'' library))
   \<and> snd (get_books in_memory (Some ''finished'') ''alice'' library) = library
   \<and> isl (fst (update_book in_memory ''0''
        \<lparr>BookUpdate.title = Some ''Dune II'', author = None, status = Some ''finished''\<rparr>
        ''alice'' library))
   \<and> snd (update_book in_memory ''0''
        \<lparr>BookUpdate.title = Some ''Dune II'', author = None, status = Some ''finished''\<rparr>
        ''alice'' library) = library\<lparr>calls := [existing_book_q ''0'' ''alice'']\<rparr>"
proof -
  have h1: "''finished'' \<notin> set valid_statuses" by (simp add: valid_statuses_def)
  have h2: "''finished'' \<noteq> []" by simp
  have h3: "BookCreate.status
      \<lparr>BookCreate.title = ''Dune'', author = ''Herbert'', status = ''finished''\<rparr>
        \<notin> set valid_statuses"
    using h1 by simp
  have h4: "(\<exists>st. BookUpdate.status
        \<lparr>BookUpdate.title = Some ''Dune II'', author = None, status = Some ''finished''\<rparr>
          = Some st \<and> st \<notin> set valid_statuses)
     \<or> (BookUpdate.title
        \<lparr>BookUpdate.title = Some ''Dune II'', author = None, status = Some ''finished''\<rparr> = None
       \<and> BookUpdate.author
        \<lparr>BookUpdate.title = Some ''Dune II'', author = None, status = Some ''finished''\<rparr> = None
       \<and> BookUpdate.status
        \<lparr>BookUpdate.title = Some ''Dune II'', author = None, status = Some ''finished''\<rparr> = None)"
    using h1 by simp
  have lib: "calls library = []" by (simp add: library_def)
  from validation_before_mutation [OF h3 h2 h1 h4, of in_memory "''alice''" library "''0''"]
  show ?thesis
    using h1 h2 lib by auto
qed

text \<open>
  C4 as stated fails: an update request with an invalid status is rejected with the
  400 only after a store call, the lookup select.
\<close>

theorem update_book_invalid_status_counterexample:
  "fst (update_book in_memory ''0''
          \<lparr>BookUpdate.title = None, author = None, status = Some ''finished''\<rparr>
          ''alice'' library)
     = Inl (HTTPException 400 (Text ''Status must be one of: reading, completed, wishlist''))
   \<and> calls library = []
   \<and> calls (snd (update_book in_memory ''0''
          \<lparr>BookUpdate.title = None, author = None, status = Some ''finished''\<rparr>
          ''alice'' library))
     = [\<lparr>tbl = ''books'', verb = Select ''*'',
          filters = [(''id'', ''0''), (''user_id'', ''alice'')], ordering = None\<rparr>]"
  by (simp add: update_book_in_memory update_data_of_def valid_statuses_def library_def
        dune_def emma_def ulysses_def existing_book_q_def eq_q_def select_q_def table_def)

text \<open>
  C5. \<^verbatim>\<open>update_book\<close> answers a mutation that returns no row with the 500
  "Failed to update book" (lemma \<open>update_book_zero_rows\<close>), but \<^verbatim>\<open>delete_book\<close>
  never looks at the result of its delete call (lemma \<open>delete_book_zero_rows\<close>).
  Evaluated where an identical delete request of the same user is executed between the
  lookup and the delete: the lookup finds the book, the delete call removes no row, and
  the response is the success message.
\<close>

theorem delete_book_zero_rows_reports_success:
  "fst (with_concurrent (eq_q ''user_id'' ''alice'' (eq_q ''id'' ''0'' (delete_q (table ''books''))))
          (existing_book_q ''0'' ''alice'') library) = Inr [dune]
   \<and> fst (with_concurrent (eq_q ''user_id'' ''alice'' (eq_q ''id'' ''0'' (delete_q (table ''books''))))
          (eq_q ''user_id'' ''alice'' (eq_q ''id'' ''0'' (delete_q (table ''books''))))
          (snd (with_concurrent
                  (eq_q ''user_id'' ''alice'' (eq_q ''id'' ''0'' (delete_q (table ''books''))))
                  (existing_book_q ''0'' ''alice'') library))) = Inr []
   \<and> fst (delete_book
            (with_concurrent (eq_q ''user_id'' ''alice'' (eq_q ''id'' ''0'' (delete_q (table ''books'')))))
            ''0'' ''alice'' library)
       = Inr [(''message'', ''Book deleted successfully'')]"
proof -
  let ?d = "eq_q ''user_id'' ''alice'' (eq_q ''id'' ''0'' (delete_q (table ''books'')))"
  have v1: "verb (existing_book_q ''0'' ''alice'') = Select ''*''"
    by (simp add: existing_book_q_simps)
  have v2: "verb ?d = Delete"
    by (simp add: eq_q_def delete_q_def)
  have look: "with_concurrent ?d (existing_book_q ''0'' ''alice'') library =
      (Inr [dune], library\<lparr>calls := [existing_book_q ''0'' ''alice'']\<rparr>)"
    by (simp add: with_concurrent_def v1 in_memory_existing_book library_def dune_def emma_def
          ulysses_def)
  have del: "fst (with_concurrent ?d ?d (library\<lparr>calls := [existing_book_q ''0'' ''alice'']\<rparr>))
      = Inr []"
    by (simp add: with_concurrent_def v2 in_memory_delete library_def)
  obtain s2 where del2: "with_concurrent ?d ?d (library\<lparr>calls := [existing_book_q ''0'' ''alice'']\<rparr>)
      = (Inr [], s2)"
    using del by (cases "with_concurrent ?d ?d (library\<lparr>calls := [existing_book_q ''0'' ''alice'']\<rparr>)") simp
  have "delete_book (with_concurrent ?d) ''0'' ''alice'' library =
      (Inr [(''message'', ''Book deleted successfully'')], s2)"
    by (rule delete_book_zero_rows [OF look _ del2]) simp
  with look del show ?thesis by simp
qed

text \<open>
  C6. An update request with none of title, author and status fails with a client
  error: 404 "Book not found" when the owner-scoped lookup is empty, 400 "No fields to
  update" otherwise. The only store call made is the lookup, so every row is left as it
  was.
\<close>

theorem update_book_empty_payload:
  assumes "BookUpdate.title bu = None" and "BookUpdate.author bu = None"
    and "BookUpdate.status bu = None"
  shows "(\<exists>e. fst (update_book in_memory i bu u s) = Inl e \<and> client_error e)
       \<and> fst (update_book in_memory i bu u s) =
           (if filter (\<lambda>b. BookResponse.id b = i \<and> BookResponse.user_id b = u) (books s) = []
            then Inl (HTTPException 404 (Text ''Book not found''))
            else Inl (HTTPException 400 (Text ''No fields to update'')))
       \<and> snd (update_book in_memory i bu u s) = s\<lparr>calls := calls s @ [existing_book_q i u]\<rparr>"
proof -
  have "update_data_of bu = Inr []"
    using assms by (simp add: update_data_of_def)
  then show ?thesis
    by (simp add: update_book_in_memory Let_def)
qed

text \<open>
  The claim at an empty update of a book of its owner.
\<close>

theorem update_book_empty_payload_witness:
  "fst (update_book in_memory ''0''
          \<lparr>BookUpdate.title = None, author = None, status = None\<rparr> ''alice'' library)
     = Inl (HTTPException 400 (Text ''No fields to update''))
   \<and> client_error (HTTPException 400 (Text ''No fields to update''))
   \<and> books (snd (update_book in_memory ''0''
          \<lparr>BookUpdate.title = None, author = None, status = None\<rparr> ''alice'' library))
     = [dune, emma, ulysses]
   \<and> calls (snd (update_book in_memory ''0''
          \<lparr>BookUpdate.title = None, author = None, status = None\<rparr> ''alice'' library))
     = [existing_book_q ''0'' ''alice'']"
  using update_book_empty_payload
    [of "\<lparr>BookUpdate.title = None, author = None, status = None\<rparr>" "''0''" "''alice''" library]
  by (simp add: library_def dune_def emma_def ulysses_def)

text \<open>
  C7. After a successful update the rows of the table keep their ids, owners and
  creation times; the titles, authors and statuses are those from before, except that
  a field supplied in the request takes the supplied value in the rows with the
  requested id and owner. The returned record is such a row.
\<close>

theorem update_book_changes_supplied_fields_only:
  assumes "update_book in_memory i bu u s = (Inr r, s')"
  shows "map BookResponse.id (books s') = map BookResponse.id (books s)
       \<and> map BookResponse.user_id (books s') = map BookResponse.user_id (books s)
       \<and> map created_at (books s') = map created_at (books s)
       \<and> map BookResponse.title (books s') =
           (case BookUpdate.title bu of
              None \<Rightarrow> map BookResponse.title (books s)
            | Some t \<Rightarrow> map (\<lambda>b. if BookResponse.id b = i \<and> BookResponse.user_id b = u
                                  then t else BookResponse.title b) (books s))
       \<and> map BookResponse.author (books s') =
           (case BookUpdate.author bu of
              None \<Rightarrow> map BookResponse.author (books s)
            | Some a \<Rightarrow> map (\<lambda>b. if BookResponse.id b = i \<and> BookResponse.user_id b = u
                                  then a else BookResponse.author b) (books s))
       \<and> map BookResponse.status (books s') =
           (case BookUpdate.status bu of
              None \<Rightarrow> map BookResponse.status (books s)
            | Some st \<Rightarrow> map (\<lambda>b. if BookResponse.id b = i \<and> BookResponse.user_id b = u
                                   then st else BookResponse.status b) (books s))
       \<and> r \<in> set (books s')
       \<and> BookResponse.id r = i \<and> BookResponse.user_id r = u"
proof -
  let ?P = "\<lambda>b. BookResponse.id b = i \<and> BookResponse.user_id b = u"
  let ?up = "\<lambda>b. b\<lparr>BookResponse.title :=
                      (case BookUpdate.title bu of None \<Rightarrow> BookResponse.title b | Some t \<Rightarrow> t),
                    BookResponse.author :=
                      (case BookUpdate.author bu of None \<Rightarrow> BookResponse.author b | Some a \<Rightarrow> a),
                    BookResponse.status :=
                      (case BookUpdate.status bu of None \<Rightarrow> BookResponse.status b | Some st \<Rightarrow> st)\<rparr>"
  from assms obtain json where j: "update_data_of bu = Inr json"
    and ne: "filter ?P (books s) \<noteq> []"
    and r: "r = set_columns json (hd (filter ?P (books s)))"
    and b: "books s' = map (\<lambda>b. if ?P b then set_columns json b else b) (books s)"
    by (rule update_book_in_memory_success)
  have sc: "set_columns json = ?up"
    by (rule ext) (rule set_columns_update_data [OF j])
  have b': "books s' = map (\<lambda>b. if ?P b then ?up b else b) (books s)"
    using b by (simp add: sc)
  have hd_in: "hd (filter ?P (books s)) \<in> set (filter ?P (books s))"
    using ne by (rule hd_in_set)
  then have hd_P: "?P (hd (filter ?P (books s)))" and hd_mem: "hd (filter ?P (books s)) \<in> set (books s)"
    by simp_all
  have r': "r = ?up (hd (filter ?P (books s)))"
    using r by (simp add: sc)
  have ids: "map BookResponse.id (books s') = map BookResponse.id (books s)"
    by (simp add: b')
  have us: "map BookResponse.user_id (books s') = map BookResponse.user_id (books s)"
    by (simp add: b')
  have cs: "map created_at (books s') = map created_at (books s)"
    by (simp add: b')
  have ts: "map BookResponse.title (books s') =
           (case BookUpdate.title bu of
              None \<Rightarrow> map BookResponse.title (books s)
            | Some t \<Rightarrow> map (\<lambda>b. if ?P b then t else BookResponse.title b) (books s))"
    by (simp add: b' split: option.splits)
  have as: "map BookResponse.author (books s') =
           (case BookUpdate.author bu of
              None \<Rightarrow> map BookResponse.author (books s)
            | Some a \<Rightarrow> map (\<lambda>b. if ?P b then a else BookResponse.author b) (books s))"
    by (simp add: b' split: option.splits)
  have ss: "map BookResponse.status (books s') =
           (case BookUpdate.status bu of
              None \<Rightarrow> map BookResponse.status (books s)
            | Some st \<Rightarrow> map (\<lambda>b. if ?P b then st else BookResponse.status b) (books s))"
    by (simp add: b' split: option.splits)
  have rin: "r \<in> set (books s')"
  proof -
    have "(\<lambda>b. if ?P b then ?up b else b) (hd (filter ?P (books s)))
            \<in> (\<lambda>b. if ?P b then ?up b else b) ` set (books s)"
      using hd_mem by (rule imageI)
    then have "?up (hd (filter ?P (books s))) \<in> (\<lambda>b. if ?P b then ?up b else b) ` set (books s)"
      using hd_P by simp
    then show ?thesis
      unfolding b' r' set_map .
  qed
  have rid: "BookResponse.id r = i \<and> BookResponse.user_id r = u"
    using hd_P r' by simp
  from ids us cs ts as ss rin rid show ?thesis by blast
qed

text \<open>
  The claim at an update of the status alone: titles and authors stay.
\<close>

theorem update_book_changes_supplied_fields_only_witness:
  "update_book in_memory ''0''
      \<lparr>BookUpdate.title = None, author = None, status = Some ''completed''\<rparr> ''alice'' library
     = (Inr (dune\<lparr>BookResponse.status := ''completed''\<rparr>),
        snd (update_book in_memory ''0''
               \<lparr>BookUpdate.title = None, author = None, status = Some ''completed''\<rparr>
               ''alice'' library))
   \<and> map BookResponse.id (books (snd (update_book in_memory ''0''
        \<lparr>BookUpdate.title = None, author = None, status = Some ''completed''\<rparr>
        ''alice'' library))) = [''0'', ''1'', ''2'']
   \<and> map BookResponse.user_id (books (snd (update_book in_memory ''0''
        \<lparr>BookUpdate.title = None, author = None, status = Some ''completed''\<rparr>
        ''alice'' library))) = [''alice'', ''alice'', ''bob'']
   \<and> map created_at (books (snd (update_book in_memory ''0''
        \<lparr>BookUpdate.title = None, author = None, status = Some ''completed''\<rparr>
        ''alice'' library))) = [0, 1, 2]
   \<and> map BookResponse.title (books (snd (update_book in_memory ''0''
        \<lparr>BookUpdate.title = None, author = None, status = Some ''completed''\<rparr>
        ''alice'' library))) = [''Dune'', ''Emma'', ''Ulysses'']
   \<and> map BookResponse.author (books (snd (update_book in_memory ''0''
        \<lparr>BookUpdate.title = None, author = None, status = Some ''completed''\<rparr>
        ''alice'' library))) = [''Herbert'', ''Austen'', ''Joyce'']
   \<and> map BookResponse.status (books (snd (update_book in_memory ''0''
        \<lparr>BookUpdate.title = None, author = None, status = Some ''completed''\<rparr>
        ''alice'' library))) = [''completed'', ''completed'', ''wishlist'']"
proof -
  let ?bu = "\<lparr>BookUpdate.title = None, author = None, status = Some ''completed''\<rparr>"
  have d: "update_data_of ?bu = Inr [(''status'', ''completed'')]"
    by (simp add: update_data_of_def valid_statuses_def)
  have f: "filter (\<lambda>b. BookResponse.id b = ''0'' \<and> BookResponse.user_id b = ''alice'') (books library)
            = [dune]"
    by (simp add: library_def dune_def emma_def ulysses_def)
  have r: "fst (update_book in_memory ''0'' ?bu ''alice'' library)
            = Inr (dune\<lparr>BookResponse.status := ''completed''\<rparr>)"
    by (simp add: update_book_in_memory d f set_columns_def set_column_def)
  have h: "update_book in_memory ''0'' ?bu ''alice'' library
     = (Inr (dune\<lparr>BookResponse.status := ''completed''\<rparr>),
        snd (update_book in_memory ''0'' ?bu ''alice'' library))"
    using r by (simp add: prod_eq_iff)
  have lib: "books library = [dune, emma, ulysses]"
    by (simp add: library_def)
  from update_book_changes_supplied_fields_only [OF h]
  show ?thesis
    using h by (simp add: lib dune_def emma_def ulysses_def)
qed

text \<open>
  C8. For a list request with no filter, an empty filter or a valid one, the result
  holds exactly the rows owned by the caller (with the given status, when one is
  given), each as often as the table does, ordered by \<^verbatim>\<open>created_at\<close> descending;
  the table is left as it was.
\<close>

theorem get_books_owner_status_sorted:
  assumes "status_filter = None \<or> status_filter = Some []
           \<or> (\<exists>f. status_filter = Some f \<and> f \<in> set valid_statuses)"
  shows "\<exists>rows. fst (get_books in_memory status_filter u s) = Inr rows
       \<and> mset rows =
           mset (filter (\<lambda>b. BookResponse.user_id b = u
                              \<and> (case status_filter of
                                    None \<Rightarrow> True
                                  | Some f \<Rightarrow> f = [] \<or> BookResponse.status b = f)) (books s))
       \<and> sorted_wrt (\<lambda>a b. created_at b \<le> created_at a) rows
       \<and> books (snd (get_books in_memory status_filter u s)) = books s"
proof -
  let ?Q = "\<lambda>b. BookResponse.user_id b = u
                  \<and> (case status_filter of None \<Rightarrow> True
                      | Some f \<Rightarrow> f = [] \<or> BookResponse.status b = f)"
  let ?rows = "rev (sort_key created_at (filter ?Q (books s)))"
  have res: "fst (get_books in_memory status_filter u s) = Inr ?rows"
  proof -
    consider (all) "status_filter = None \<or> status_filter = Some []"
      | (narrowed) f where "status_filter = Some f" and "f \<in> set valid_statuses" and "f \<noteq> []"
      using assms by auto
    then show ?thesis
    proof cases
      case all
      then have "filter ?Q (books s) = filter (\<lambda>b. BookResponse.user_id b = u) (books s)"
        by (intro filter_cong) auto
      with all show ?thesis
        by (simp add: get_books_in_memory_all)
    next
      case narrowed
      then have "filter ?Q (books s)
          = filter (\<lambda>b. BookResponse.user_id b = u \<and> BookResponse.status b = f) (books s)"
        by (intro filter_cong) auto
      with narrowed show ?thesis
        by (simp add: get_books_in_memory_status)
    qed
  qed
  have ms: "mset ?rows = mset (filter ?Q (books s))"
    by simp
  have so: "sorted_wrt (\<lambda>a b. created_at b \<le> created_at a) ?rows"
    by (rule sorted_desc_rev_sort_key)
  have bs: "books (snd (get_books in_memory status_filter u s)) = books s"
    by (rule get_books_in_memory_books)
  from res ms so bs show ?thesis
    by blast
qed

text \<open>
  The claim at the example library, without a filter and with one.
\<close>

theorem get_books_owner_status_sorted_witness:
  "fst (get_books in_memory None ''alice'' library) = Inr [emma, dune]
   \<and> created_at dune \<le> created_at emma
   \<and> ''completed'' \<in> set valid_statuses
   \<and> fst (get_books in_memory (Some ''completed'') ''alice'' library) = Inr [emma]
   \<and> books (snd (get_books in_memory (Some ''completed'') ''alice'' library))
       = [dune, emma, ulysses]"
proof -
  have v: "''completed'' \<in> set valid_statuses"
    by (simp add: valid_statuses_def)
  have h: "Some ''completed'' = None \<or> Some ''completed'' = Some []
           \<or> (\<exists>f. Some ''completed'' = Some f \<and> f \<in> set valid_statuses)"
    using v by simp
  have a: "fst (get_books in_memory None ''alice'' library) = Inr [emma, dune]"
    by (simp add: get_books_in_memory_all library_def dune_def emma_def ulysses_def)
  have c: "fst (get_books in_memory (Some ''completed'') ''alice'' library) = Inr [emma]"
    by (simp add: get_books_in_memory_status v library_def dune_def emma_def ulysses_def)
  have lib: "books library = [dune, emma, ulysses]"
    by (simp add: library_def)
  from get_books_owner_status_sorted [OF h, of "''alice''" library]
  show ?thesis
    using a c v lib by (auto simp add: dune_def emma_def)
qed

text \<open>
  C9. After any sequence of requests on the empty store, every persisted status is one
  of the three values. A create request with another status is rejected with the store
  untouched, and an update request with another status is rejected with the rows
  untouched.
\<close>

theorem persisted_status_valid:
  "(\<forall>b\<in>set (books (run reqs empty_store)). BookResponse.status b \<in> set valid_statuses)
   \<and> (BookCreate.status book \<notin> set valid_statuses \<longrightarrow>
        (\<exists>e. create_book in_memory book u s = (Inl e, s)))
   \<and> ((\<exists>st. BookUpdate.status bu = Some st \<and> st \<notin> set valid_statuses) \<longrightarrow>
        (\<exists>e. fst (update_book in_memory i bu u s) = Inl e)
        \<and> books (snd (update_book in_memory i bu u s)) = books s)"
proof -
  have inv: "\<forall>b\<in>set (books (run reqs empty_store)). BookResponse.status b \<in> set valid_statuses"
    by (rule run_valid_status) (simp add: empty_store_def)
  have cr: "BookCreate.status book \<notin> set valid_statuses \<longrightarrow>
        (\<exists>e. create_book in_memory book u s = (Inl e, s))"
    by (simp add: create_book_invalid_status)
  have up: "(\<exists>st. BookUpdate.status bu = Some st \<and> st \<notin> set valid_statuses) \<longrightarrow>
        (\<exists>e. fst (update_book in_memory i bu u s) = Inl e)
        \<and> books (snd (update_book in_memory i bu u s)) = books s"
  proof
    assume "\<exists>st. BookUpdate.status bu = Some st \<and> st \<notin> set valid_statuses"
    then obtain e where "update_data_of bu = Inl e"
      using update_data_of_Inl_iff by blast
    then show "(\<exists>e. fst (update_book in_memory i bu u s) = Inl e)
        \<and> books (snd (update_book in_memory i bu u s)) = books s"
      by (simp add: update_book_in_memory Let_def)
  qed
  from inv cr up show ?thesis by blast
qed

text \<open>
  The claim at a sequence with one rejected create and one rejected update.
\<close>

theorem persisted_status_valid_witness:
  "books (run [(''alice'', CreateBook \<lparr>BookCreate.title = ''Dune'', author = ''Herbert'',
                                       status = ''reading''\<rparr>),
               (''alice'', CreateBook \<lparr>BookCreate.title = ''Emma'', author = ''Austen'',
                                       status = ''finished''\<rparr>),
               (''alice'', UpdateBook ''0'' \<lparr>BookUpdate.title = None, author = None,
                                           status = Some ''abandoned''\<rparr>),
               (''alice'', UpdateBook ''0'' \<lparr>BookUpdate.title = None, author = None,
                                           status = Some ''completed''\<rparr>)] empty_store)
     = [dune\<lparr>BookResponse.status := ''completed''\<rparr>]
   \<and> ''completed'' \<in> set valid_statuses
   \<and> ''finished'' \<notin> set valid_statuses
   \<and> ''abandoned'' \<notin> set valid_statuses
   \<and> isl (fst (create_book in_memory
        \<lparr>BookCreate.title = ''Emma'', author = ''Austen'', status = ''finished''\<rparr>
        ''alice'' library))
   \<and> books (snd (create_book in_memory
        \<lparr>BookCreate.title = ''Emma'', author = ''Austen'', status = ''finished''\<rparr>
        ''alice'' library)) = books library
   \<and> isl (fst (update_book in_memory ''0''
        \<lparr>BookUpdate.title = None, author = None, status = Some ''abandoned''\<rparr>
        ''alice'' library))
   \<and> books (snd (update_book in_memory ''0''
        \<lparr>BookUpdate.title = None, author = None, status = Some ''abandoned''\<rparr>
        ''alice'' library)) = books library"
proof -
  let ?c1 = "\<lparr>BookCreate.title = ''Dune'', author = ''Herbert'', status = ''reading''\<rparr>"
  let ?c2 = "\<lparr>BookCreate.title = ''Emma'', author = ''Austen'', status = ''finished''\<rparr>"
  let ?u1 = "\<lparr>BookUpdate.title = None, author = None, status = Some ''abandoned''\<rparr>"
  let ?u2 = "\<lparr>BookUpdate.title = None, author = None, status = Some ''completed''\<rparr>"
  let ?reqs = "[(''alice'', CreateBook ?c1), (''alice'', CreateBook ?c2),
                (''alice'', UpdateBook ''0'' ?u1), (''alice'', UpdateBook ''0'' ?u2)]"
  have v: "''completed'' \<in> set valid_statuses" "''reading'' \<in> set valid_statuses"
    "''finished'' \<notin> set valid_statuses" "''abandoned'' \<notin> set valid_statuses"
    by (simp_all add: valid_statuses_def)
  have d1: "update_data_of ?u1 = Inl (HTTPException 400
      (Text ''Status must be one of: reading, completed, wishlist''))"
    using v by (simp add: update_data_of_def join_valid_statuses)
  have d2: "update_data_of ?u2 = Inr [(''status'', ''completed'')]"
    using v by (simp add: update_data_of_def)
  have s1: "books (handle (''alice'', CreateBook ?c1) empty_store) = [dune]"
    using v by (simp add: create_book_in_memory empty_store_def dune_def string_of_nat.simps)
  have s2: "books (handle (''alice'', CreateBook ?c2) s) = books s" for s
    using v by (simp add: create_book_invalid_status)
  have s3: "books (handle (''alice'', UpdateBook ''0'' ?u1) s) = books s" for s
    by (simp add: update_book_in_memory d1 Let_def)
  have s4: "books s = [dune] \<Longrightarrow> books (handle (''alice'', UpdateBook ''0'' ?u2) s)
             = [dune\<lparr>BookResponse.status := ''completed''\<rparr>]" for s
    by (simp add: update_book_in_memory d2 Let_def dune_def set_columns_def set_column_def)
  have r: "books (run ?reqs empty_store) = [dune\<lparr>BookResponse.status := ''completed''\<rparr>]"
    unfolding run_def fold_simps o_apply by (rule s4) (simp only: s3 s2 s1)
  from persisted_status_valid [of ?reqs ?c2 "''alice''" library ?u1 "''0''"]
  show ?thesis
    using r v by auto
qed

text \<open>
  C10. A list request with the empty string as its filter is the request without a
  filter, for every store client: no validation, no narrowing by status. On the
  in-memory store it returns all rows of the caller.
\<close>

theorem get_books_empty_string_filter:
  "get_books supabase (Some []) u s = get_books supabase None u s
   \<and> get_books in_memory (Some []) u s =
       (Inr (rev (sort_key created_at (filter (\<lambda>b. BookResponse.user_id b = u) (books s)))),
        s\<lparr>calls := calls s @ [order_q ''created_at'' True
                                 (eq_q ''user_id'' u (select_q ''*'' (table ''books'')))]\<rparr>)"
  by (simp add: get_books_empty_filter get_books_in_memory_all)

end
